theory Spec2Isabelle
  imports Main
begin

section \<open>Values shared by the forms of \<^verbatim>\<open>timepiece/forms.py\<close>\<close>

text \<open>
  A naive \<^verbatim>\<open>datetime\<close> is its count of microseconds from the calendar's origin and a
  \<^verbatim>\<open>date\<close> is its day ordinal, so that Python's comparisons on them are the
  comparisons of \<^typ>\<open>int\<close>. \<^verbatim>\<open>datetime.time()\<close> keeps the part within the day.
\<close>

type_synonym datetime = int
type_synonym date = int

definition time_of :: "datetime \<Rightarrow> int" where
  "time_of dt = dt mod 86400000000"

text \<open>
  \<^verbatim>\<open>forms.ValidationError(template % args)\<close> is kept as the template together with the
  values interpolated into it; a fixed message has no arguments. The other constructors
  are the exceptions that are not validation errors.
\<close>

datatype fmt_arg = ProjectArg nat | ActivityArg nat | TimeArg int | DateArg date

datatype error =
    ValidationError string "fmt_arg list"
  | ValueError string
  | TypeError
  | DoesNotExist
  | IntegrityError

text \<open>Python truthiness of an optional string and of an optional primary key.\<close>

fun truthy_str :: "string option \<Rightarrow> bool" where
  "truthy_str None = False"
| "truthy_str (Some s) = (s \<noteq> [])"

fun truthy_id :: "nat option \<Rightarrow> bool" where
  "truthy_id None = False"
| "truthy_id (Some n) = (n \<noteq> 0)"


section \<open>EditPersonForm\<close>

text \<open>
  The user row of \<^verbatim>\<open>auth_models.User\<close>, restricted to the fields the form lists in
  \<^verbatim>\<open>Meta.fields\<close> and the stored password.
\<close>

record auth_user =
  username :: string
  first_name :: string
  last_name :: string
  email :: string
  is_active :: bool
  is_staff :: bool
  password :: string

text \<open>
  \<^verbatim>\<open>cleaned_data\<close> of the form. The two password fields are read with
  \<^verbatim>\<open>cleaned_data.get(name, None)\<close>: \<open>None\<close> is a field that did not validate, and an
  empty input of a non-required \<^verbatim>\<open>CharField\<close> is the empty string.
\<close>

record person_cleaned =
  cd_username :: string
  cd_first_name :: string
  cd_last_name :: string
  cd_email :: string
  cd_is_active :: bool
  cd_is_staff :: bool
  password_one :: "string option"
  password_two :: "string option"

definition EditPersonForm_clean :: "person_cleaned \<Rightarrow> error + person_cleaned" where
  "EditPersonForm_clean cd =
     (if truthy_str (password_one cd) \<and> password_one cd \<noteq> password_two cd
      then Inl (ValidationError ''Passwords Must Match.'' [])
      else Inr cd)"

text \<open>
  \<^verbatim>\<open>super().save(commit=False)\<close> copies the listed fields of \<^verbatim>\<open>cleaned_data\<close> onto the
  instance without writing it.
\<close>

definition construct_user :: "auth_user \<Rightarrow> person_cleaned \<Rightarrow> auth_user" where
  "construct_user inst cd =
     inst\<lparr>username := cd_username cd, first_name := cd_first_name cd,
          last_name := cd_last_name cd, email := cd_email cd,
          is_active := cd_is_active cd, is_staff := cd_is_staff cd\<rparr>"

text \<open>
  \<^verbatim>\<open>instance.set_password(raw)\<close> stores what the framework's hasher makes of the raw
  password; the hasher \<open>mk\<close> is a parameter.
\<close>

definition set_password :: "(string \<Rightarrow> string) \<Rightarrow> string \<Rightarrow> auth_user \<Rightarrow> auth_user" where
  "set_password mk raw u = u\<lparr>password := mk raw\<rparr>"

text \<open>
  \<^verbatim>\<open>save\<close> takes the \<^verbatim>\<open>commit\<close> keyword (\<open>None\<close> when the caller gives none, which
  \<^verbatim>\<open>kwargs.get('commit', True)\<close> reads as \<open>True\<close>), the form's instance, the cleaned data
  and the row stored in the database; it returns the instance and the stored row
  afterwards.
\<close>

definition EditPersonForm_save ::
  "(string \<Rightarrow> string) \<Rightarrow> bool option \<Rightarrow> auth_user \<Rightarrow> person_cleaned \<Rightarrow> auth_user
     \<Rightarrow> auth_user \<times> auth_user" where
  "EditPersonForm_save mk kw inst cd row =
     (let commit = (case kw of None \<Rightarrow> True | Some c \<Rightarrow> c);
          instance = construct_user inst cd;
          instance = (case password_one cd of
                        None \<Rightarrow> instance
                      | Some p \<Rightarrow> if p \<noteq> [] then set_password mk p instance else instance)
      in (instance, if commit then instance else row))"


section \<open>QuickSearchForm\<close>

text \<open>
  The classes an object can be an instance of: the three model classes that
  \<^verbatim>\<open>clean_quick_search\<close> tests for, and any other class, given by its name.
\<close>

datatype model_class = Project | Business | User | OtherClass string

text \<open>
  The object the autocomplete lookup returns: the classes of its type, which are the
  type itself followed by all the classes it inherits from (\<^verbatim>\<open>type(item).__mro__\<close>), and
  its \<^verbatim>\<open>id\<close>. An instance of a subclass of Project has Project among them.
\<close>

record item =
  item_mro :: "model_class list"
  item_id :: nat

text \<open>\<^verbatim>\<open>isinstance(x, c)\<close>: the class \<open>c\<close> is the type of \<open>x\<close> or one of its base classes.\<close>

definition isinstance :: "item \<Rightarrow> model_class \<Rightarrow> bool" where
  "isinstance x c = (c \<in> set (item_mro x))"

text \<open>
  \<^verbatim>\<open>reverse(view, kwargs={key: id})\<close> belongs to the framework and the URL
  configuration; it is the parameter \<open>reverse\<close>.
\<close>

definition clean_quick_search ::
  "(string \<Rightarrow> (string \<times> nat) list \<Rightarrow> string) \<Rightarrow> item \<Rightarrow> error + string" where
  "clean_quick_search reverse x =
     (if isinstance x Project then Inr (reverse ''view_project'' [(''project_id'', item_id x)])
      else if isinstance x Business then Inr (reverse ''view_business'' [(''business'', item_id x)])
      else if isinstance x User then Inr (reverse ''view_person'' [(''person_id'', item_id x)])
      else Inl (ValidationError ''Must be a User or Project'' []))"


section \<open>ClockInForm and AddUpdateEntryForm\<close>

text \<open>
  A row of \<^verbatim>\<open>timepiece.Entry\<close>: the owner, the project and the activity are keys, the
  start is a datetime, and an entry is open while its \<^verbatim>\<open>end_time\<close> is null. The
  database is the list of rows in the order a queryset yields them.
\<close>

record entry =
  user :: nat
  project :: nat
  activity :: nat
  start_time :: datetime
  end_time :: "datetime option"

text \<open>\<^verbatim>\<open>self.user.timepiece_entries\<close>: the entries of the form's user.\<close>

definition timepiece_entries :: "entry list \<Rightarrow> nat \<Rightarrow> entry list" where
  "timepiece_entries db u = filter (\<lambda>x. user x = u) db"

text \<open>The three values interpolated into both conflict messages.\<close>

definition entry_args :: "entry \<Rightarrow> fmt_arg list" where
  "entry_args x = [ProjectArg (project x), ActivityArg (activity x), TimeArg (time_of (start_time x))]"

definition clock_in_conflict :: "entry \<Rightarrow> error" where
  "clock_in_conflict x =
     ValidationError
       ''The start time is on or before the current entry: %s - %s starting at %s''
       (entry_args x)"

definition add_update_conflict :: "entry \<Rightarrow> error" where
  "add_update_conflict x =
     ValidationError
       ''The times below conflict with the current entry: %s - %s starting at %s''
       (entry_args x)"

text \<open>
  \<^verbatim>\<open>ClockInForm.clean_start_time\<close>. The field is not required, so the cleaned start can
  be \<open>None\<close>, and the query layer refuses \<open>None\<close> as the value of a \<^verbatim>\<open>gte\<close> lookup. The
  body of the loop raises, so the first row of the queryset decides.
\<close>

definition clean_start_time :: "entry list \<Rightarrow> nat \<Rightarrow> datetime option \<Rightarrow> error + datetime" where
  "clean_start_time db u start =
     (case start of
        None \<Rightarrow> Inl (ValueError ''Cannot use None as a query value'')
      | Some s \<Rightarrow>
          (case filter (\<lambda>x. s \<le> start_time x \<and> end_time x = None) (timepiece_entries db u) of
             [] \<Rightarrow> Inr s
           | x # _ \<Rightarrow> Inl (clock_in_conflict x)))"

text \<open>
  \<^verbatim>\<open>AddUpdateEntryForm.clean\<close>. The condition of the second \<^verbatim>\<open>if\<close> reads the clock
  twice: \<open>now1\<close> is what the first \<^verbatim>\<open>datetime.now()\<close> returns and \<open>now2\<close> the second,
  which is read only when the first comparison is false. The result is the pair of
  cleaned times.
\<close>

definition AddUpdateEntryForm_clean ::
  "datetime \<Rightarrow> datetime \<Rightarrow> entry list \<Rightarrow> nat \<Rightarrow> datetime option \<Rightarrow> datetime option
     \<Rightarrow> error + (datetime \<times> datetime)" where
  "AddUpdateEntryForm_clean now1 now2 db u start endt =
     (case (start, endt) of
        (Some s, Some e) \<Rightarrow>
          if now1 \<le> s \<or> now2 < e
          then Inl (ValidationError ''Entries may not be added in the future.'' [])
          else
            (case filter (\<lambda>x. (start_time x \<le> e \<and> end_time x = None)
                              \<or> (start_time x \<le> s \<and> end_time x = None))
                    (timepiece_entries db u) of
               [] \<Rightarrow> Inr (s, e)
             | x # _ \<Rightarrow> Inl (add_update_conflict x))
      | _ \<Rightarrow> Inl (ValidationError ''Please enter a valid start and end date/time.'' []))"

text \<open>
  The spec's reading of "overlapping": an open entry occupies the time from its start
  onwards, so it overlaps the range from \<open>a\<close> to \<open>b\<close> (end excluded) when it starts
  before \<open>b\<close>; the range of a clock-in has no end (\<open>None\<close>) and every open entry
  overlaps it.
\<close>

definition spec_overlaps_open :: "entry \<Rightarrow> datetime \<Rightarrow> datetime option \<Rightarrow> bool" where
  "spec_overlaps_open x a b =
     (end_time x = None \<and> (case b of None \<Rightarrow> True | Some b' \<Rightarrow> start_time x < b'))"

text \<open>The open entries of the user \<open>u\<close> that overlap the range, in that reading.\<close>

definition spec_overlapping_open ::
  "entry list \<Rightarrow> nat \<Rightarrow> datetime \<Rightarrow> datetime option \<Rightarrow> entry list" where
  "spec_overlapping_open db u a b =
     filter (\<lambda>x. spec_overlaps_open x a b) (timepiece_entries db u)"

text \<open>
  The spec's condition for rejecting a candidate that ends at \<open>e\<close>: some entry of the
  user has an open end and a start at or before \<open>e\<close>.
\<close>

definition spec_conflict :: "entry list \<Rightarrow> nat \<Rightarrow> datetime \<Rightarrow> bool" where
  "spec_conflict db u e =
     list_ex (\<lambda>x. end_time x = None \<and> start_time x \<le> e) (timepiece_entries db u)"


section \<open>RepeatPeriodForm\<close>

record billing_window =
  date :: date
  end_date :: date

record repeat_period =
  period_id :: "nat option"
  active :: bool
  count :: "int option"
  interval :: string

text \<open>\<^verbatim>\<open>cleaned_data\<close> of the form: the three model fields and the optional date.\<close>

record period_cleaned =
  cd_active :: bool
  cd_count :: "int option"
  cd_interval :: string
  cd_date :: "date option"

text \<open>
  What the form uses of \<^verbatim>\<open>timepiece/models.py\<close>, which is not among the sources, as
  parameters: \<open>plus_delta p d\<close> is \<^verbatim>\<open>d + p.delta()\<close>; \<open>latest ws\<close> is
  \<^verbatim>\<open>billing_windows.latest()\<close> on the windows \<open>ws\<close> of the period, \<open>None\<close> when it
  raises \<^verbatim>\<open>DoesNotExist\<close>; \<open>row_ok p\<close> tells whether the database accepts the row of
  \<open>p\<close> on \<^verbatim>\<open>p.save()\<close> (the constraints of the columns are declared with the model);
  \<open>new_id\<close> is the key the database gives a period on its first \<^verbatim>\<open>save()\<close>; \<open>due p l\<close>
  and \<open>next_date p l\<close> belong to \<^verbatim>\<open>update_billing_windows\<close> below.
\<close>

record models =
  plus_delta :: "repeat_period \<Rightarrow> date \<Rightarrow> date"
  latest :: "billing_window list \<Rightarrow> billing_window option"
  row_ok :: "repeat_period \<Rightarrow> bool"
  new_id :: nat
  due :: "repeat_period \<Rightarrow> billing_window \<Rightarrow> nat"
  next_date :: "repeat_period \<Rightarrow> billing_window \<Rightarrow> date"

text \<open>
  Modelled from the spec: \<^verbatim>\<open>RepeatPeriod.update_billing_windows\<close>, which
  \<^verbatim>\<open>RepeatPeriodForm.save\<close> calls last, is defined in \<^verbatim>\<open>timepiece/models.py\<close> and is
  missing from the sources. The spec says of the windows of a period: "Billing windows are
  appended, never mutated, once created; each window's end date is derived from the prior
  window's end date plus a period-defined delta." So the call leaves the windows it finds
  as they are and appends, after the latest one, the windows that are due: each ends at
  the end date of its predecessor plus the delta of the period. The spec does not say how
  many windows are due on the day of the call, nor where such a window starts: these are
  the parameters \<open>due\<close> and \<open>next_date\<close>. A period without windows gets none.
\<close>

fun rollover :: "models \<Rightarrow> repeat_period \<Rightarrow> nat \<Rightarrow> billing_window \<Rightarrow> billing_window list" where
  "rollover M p 0 l = []"
| "rollover M p (Suc n) l =
     \<lparr>date = next_date M p l, end_date = plus_delta M p (end_date l)\<rparr>
       # rollover M p n \<lparr>date = next_date M p l, end_date = plus_delta M p (end_date l)\<rparr>"

text \<open>
  Modelled from the spec: the windows that one call of \<^verbatim>\<open>update_billing_windows\<close> (missing
  from the sources) appends, which follow the latest window of the period.
\<close>

definition due_windows :: "models \<Rightarrow> repeat_period \<Rightarrow> billing_window list \<Rightarrow> billing_window list" where
  "due_windows M p ws =
     (case latest M ws of None \<Rightarrow> [] | Some l \<Rightarrow> rollover M p (due M p l) l)"

text \<open>
  Modelled from the spec: \<^verbatim>\<open>update_billing_windows\<close> (missing from the sources) on the
  windows of the period: "appended, never mutated".
\<close>

definition update_billing_windows ::
  "models \<Rightarrow> repeat_period \<Rightarrow> billing_window list \<Rightarrow> billing_window list" where
  "update_billing_windows M p ws = ws @ due_windows M p ws"

text \<open>
  The spec's sentence on end dates, as a check of a list of windows that follows the
  window \<open>l\<close>: each window ends at the end date of the one before it plus the delta.
\<close>

fun rolls_from :: "models \<Rightarrow> repeat_period \<Rightarrow> billing_window \<Rightarrow> billing_window list \<Rightarrow> bool" where
  "rolls_from M p l [] = True"
| "rolls_from M p l (w # rest) = (end_date w = plus_delta M p (end_date l) \<and> rolls_from M p w rest)"



text \<open>
  \<^verbatim>\<open>super().save(commit=False)\<close> copies the model fields of the cleaned data onto the
  instance; \<^verbatim>\<open>period\<close> and \<^verbatim>\<open>self.instance\<close> are the same object.
\<close>

definition construct_period :: "repeat_period \<Rightarrow> period_cleaned \<Rightarrow> repeat_period" where
  "construct_period inst cd =
     inst\<lparr>active := cd_active cd, count := cd_count cd, interval := cd_interval cd\<rparr>"

text \<open>
  The outcome of \<^verbatim>\<open>save\<close>: the period returned, the row that \<^verbatim>\<open>period.save()\<close> wrote
  (\<open>None\<close> when it was not called) and the windows of the period in the database.
\<close>

record save_outcome =
  period :: repeat_period
  period_row :: "repeat_period option"
  windows :: "billing_window list"

text \<open>
  The part of \<^verbatim>\<open>RepeatPeriodForm.save\<close> before its last statement: the period, the row
  written and the windows after the \<^verbatim>\<open>if\<close>/\<^verbatim>\<open>elif\<close>. \<^verbatim>\<open>period.save()\<close> raises when
  the database refuses the row. \<^verbatim>\<open>billing_windows.create\<close> adds a row at the end. Adding
  the delta to a missing date is a \<^verbatim>\<open>TypeError\<close>.
\<close>

definition save_branches ::
  "models \<Rightarrow> repeat_period \<Rightarrow> period_cleaned \<Rightarrow> billing_window list \<Rightarrow> error + save_outcome" where
  "save_branches M inst cd ws =
     (let p = construct_period inst cd in
      if \<not> truthy_id (period_id inst) \<and> active p
      then
        (if \<not> row_ok M p then Inl IntegrityError
         else
           (let p' = p\<lparr>period_id := Some (new_id M)\<rparr> in
            case cd_date cd of
              None \<Rightarrow> Inl TypeError
            | Some d \<Rightarrow>
                Inr \<lparr>period = p', period_row = Some p',
                     windows = ws @ [\<lparr>date = d, end_date = plus_delta M p' d\<rparr>]\<rparr>))
      else if truthy_id (period_id inst)
      then
        (if \<not> row_ok M p then Inl IntegrityError
         else
           (case cd_date cd of
              None \<Rightarrow> Inr \<lparr>period = p, period_row = Some p, windows = ws\<rparr>
            | Some start_date \<Rightarrow>
                if active p
                then (case latest M ws of
                        None \<Rightarrow> Inl DoesNotExist
                      | Some l \<Rightarrow>
                          if end_date l < start_date
                          then Inr \<lparr>period = p, period_row = Some p,
                                    windows = ws @ [\<lparr>date = end_date l,
                                                     end_date = plus_delta M p start_date\<rparr>]\<rparr>
                          else Inr \<lparr>period = p, period_row = Some p, windows = ws\<rparr>)
                else Inr \<lparr>period = p, period_row = Some p, windows = ws\<rparr>))
      else Inr \<lparr>period = p, period_row = None, windows = ws\<rparr>)"

text \<open>\<^verbatim>\<open>RepeatPeriodForm.save\<close>: the branches, then \<^verbatim>\<open>period.update_billing_windows()\<close>.\<close>

definition RepeatPeriodForm_save ::
  "models \<Rightarrow> repeat_period \<Rightarrow> period_cleaned \<Rightarrow> billing_window list \<Rightarrow> error + save_outcome" where
  "RepeatPeriodForm_save M inst cd ws =
     (case save_branches M inst cd ws of
        Inl err \<Rightarrow> Inl err
      | Inr out \<Rightarrow>
          Inr (out\<lparr>windows := update_billing_windows M (period out) (windows out)\<rparr>))"



text \<open>
  Two instances of the parameters, for evaluating the form on concrete inputs. In both
  the interval of the period is a day, so its delta is \<^verbatim>\<open>count\<close> days; \<^verbatim>\<open>latest()\<close> is
  the window created last; the database accepts a row that has a count and gives a new
  period the key 1; a window that is due starts where its predecessor ends. In the first
  no window is due on the day of the call, in the second two are.
\<close>

definition days_models :: models where
  "days_models =
     \<lparr>plus_delta = (\<lambda>p d. d + (case count p of None \<Rightarrow> 0 | Some n \<Rightarrow> n)),
      latest = (\<lambda>ws. if ws = [] then None else Some (last ws)),
      row_ok = (\<lambda>p. count p \<noteq> None),
      new_id = 1,
      due = (\<lambda>p l. 0),
      next_date = (\<lambda>p l. end_date l)\<rparr>"

definition rolling_models :: models where
  "rolling_models = days_models\<lparr>due := (\<lambda>p l. 2)\<rparr>"


section \<open>Auxiliary facts\<close>

lemma filter_Nil_none: "filter P xs = [] \<Longrightarrow> x \<in> set xs \<Longrightarrow> \<not> P x"
  by (auto simp: filter_empty_conv)

lemma filter_Cons_first: "filter P xs = y # ys \<Longrightarrow> y \<in> set xs \<and> P y"
proof -
  assume "filter P xs = y # ys"
  then have "y \<in> set (filter P xs)" by simp
  then show ?thesis by simp
qed

lemma set_timepiece_entries: "set (timepiece_entries db u) = {x \<in> set db. user x = u}"
  by (simp add: timepiece_entries_def)

lemma spec_conflict_iff:
  "spec_conflict db u e \<longleftrightarrow> (\<exists>x\<in>set db. user x = u \<and> end_time x = None \<and> start_time x \<le> e)"
  by (auto simp: spec_conflict_def list_ex_iff set_timepiece_entries)

lemma add_update_conflict_not_future:
  "add_update_conflict x \<noteq> ValidationError ''Entries may not be added in the future.'' []"
  by (simp add: add_update_conflict_def)

lemma add_update_past:
  assumes "s < now1" "e \<le> now2"
  shows "AddUpdateEntryForm_clean now1 now2 db u (Some s) (Some e) =
     (case filter (\<lambda>x. (start_time x \<le> e \<and> end_time x = None)
                       \<or> (start_time x \<le> s \<and> end_time x = None))
             (timepiece_entries db u) of
        [] \<Rightarrow> Inr (s, e)
      | x # _ \<Rightarrow> Inl (add_update_conflict x))"
  using assms by (simp add: AddUpdateEntryForm_clean_def)

lemma rolls_from_rollover: "rolls_from M p l (rollover M p n l)"
  by (induction n arbitrary: l) simp_all


section \<open>EditPersonForm: password validation and saving\<close>

text \<open>
  C5. \<^verbatim>\<open>EditPersonForm.clean\<close> fails with the form error "Passwords Must Match" (the
  source's message ends in a full stop) if and only if the first password field is
  non-empty and differs from the second; in every other case it raises nothing and
  returns the cleaned data.
\<close>

theorem password_mismatch_iff:
  "(EditPersonForm_clean cd = Inl (ValidationError ''Passwords Must Match.'' [])
      \<longleftrightarrow> (\<exists>p. password_one cd = Some p \<and> p \<noteq> [] \<and> password_two cd \<noteq> Some p))
   \<and> (EditPersonForm_clean cd = Inr cd
      \<longleftrightarrow> \<not> (\<exists>p. password_one cd = Some p \<and> p \<noteq> [] \<and> password_two cd \<noteq> Some p))"
  by (cases "password_one cd") (auto simp: EditPersonForm_clean_def)

text \<open>
  C9. \<^verbatim>\<open>EditPersonForm.save\<close> sets the password of the user from the first password
  field (through \<^verbatim>\<open>set_password\<close>) when that field is non-empty, and leaves the password
  as it was when the field is empty or missing, whatever the second field holds. The six
  listed fields are taken from the cleaned data in both cases, and the instance is
  written to the database unless the caller passes \<^verbatim>\<open>commit=False\<close>.
\<close>

theorem edit_person_save_password:
  "(password_one cd = Some p \<and> p \<noteq> [] \<longrightarrow>
       password (fst (EditPersonForm_save mk kw inst cd row)) = mk p)
   \<and> (\<not> truthy_str (password_one cd) \<longrightarrow>
       password (fst (EditPersonForm_save mk kw inst cd row)) = password inst)
   \<and> username (fst (EditPersonForm_save mk kw inst cd row)) = cd_username cd
   \<and> first_name (fst (EditPersonForm_save mk kw inst cd row)) = cd_first_name cd
   \<and> last_name (fst (EditPersonForm_save mk kw inst cd row)) = cd_last_name cd
   \<and> email (fst (EditPersonForm_save mk kw inst cd row)) = cd_email cd
   \<and> is_active (fst (EditPersonForm_save mk kw inst cd row)) = cd_is_active cd
   \<and> is_staff (fst (EditPersonForm_save mk kw inst cd row)) = cd_is_staff cd
   \<and> snd (EditPersonForm_save mk None inst cd row) = fst (EditPersonForm_save mk None inst cd row)
   \<and> snd (EditPersonForm_save mk (Some True) inst cd row)
       = fst (EditPersonForm_save mk (Some True) inst cd row)
   \<and> snd (EditPersonForm_save mk (Some False) inst cd row) = row"
  by (cases "password_one cd")
     (simp_all add: EditPersonForm_save_def construct_user_def set_password_def Let_def)

theorem edit_person_save_password_witness:
  "password (snd (EditPersonForm_save ((@) ''sha1:'') None
       \<lparr>username = ''ann'', first_name = ''Ann'', last_name = ''Lee'', email = ''a@x.org'',
        is_active = True, is_staff = False, password = ''sha1:old''\<rparr>
       \<lparr>cd_username = ''ann'', cd_first_name = ''Ann'', cd_last_name = ''Low'',
        cd_email = ''a@x.org'', cd_is_active = True, cd_is_staff = False,
        password_one = Some ''new'', password_two = Some ''new''\<rparr>
       \<lparr>username = ''ann'', first_name = ''Ann'', last_name = ''Lee'', email = ''a@x.org'',
        is_active = True, is_staff = False, password = ''sha1:old''\<rparr>)) = ''sha1:new''
   \<and> password (snd (EditPersonForm_save ((@) ''sha1:'') None
       \<lparr>username = ''ann'', first_name = ''Ann'', last_name = ''Lee'', email = ''a@x.org'',
        is_active = True, is_staff = False, password = ''sha1:old''\<rparr>
       \<lparr>cd_username = ''ann'', cd_first_name = ''Ann'', cd_last_name = ''Low'',
        cd_email = ''a@x.org'', cd_is_active = True, cd_is_staff = False,
        password_one = Some [], password_two = Some []\<rparr>
       \<lparr>username = ''ann'', first_name = ''Ann'', last_name = ''Lee'', email = ''a@x.org'',
        is_active = True, is_staff = False, password = ''sha1:old''\<rparr>)) = ''sha1:old''
   \<and> last_name (snd (EditPersonForm_save ((@) ''sha1:'') None
       \<lparr>username = ''ann'', first_name = ''Ann'', last_name = ''Lee'', email = ''a@x.org'',
        is_active = True, is_staff = False, password = ''sha1:old''\<rparr>
       \<lparr>cd_username = ''ann'', cd_first_name = ''Ann'', cd_last_name = ''Low'',
        cd_email = ''a@x.org'', cd_is_active = True, cd_is_staff = False,
        password_one = Some [], password_two = Some []\<rparr>
       \<lparr>username = ''ann'', first_name = ''Ann'', last_name = ''Lee'', email = ''a@x.org'',
        is_active = True, is_staff = False, password = ''sha1:old''\<rparr>)) = ''Low''"
proof -
  let ?u = "\<lparr>username = ''ann'', first_name = ''Ann'', last_name = ''Lee'', email = ''a@x.org'',
             is_active = True, is_staff = False, password = ''sha1:old''\<rparr>"
  let ?cd1 = "\<lparr>cd_username = ''ann'', cd_first_name = ''Ann'', cd_last_name = ''Low'',
               cd_email = ''a@x.org'', cd_is_active = True, cd_is_staff = False,
               password_one = Some ''new'', password_two = Some ''new''\<rparr>"
  let ?cd2 = "\<lparr>cd_username = ''ann'', cd_first_name = ''Ann'', cd_last_name = ''Low'',
               cd_email = ''a@x.org'', cd_is_active = True, cd_is_staff = False,
               password_one = Some [], password_two = Some []\<rparr>"
  from edit_person_save_password [of ?cd1 "''new''" "(@) ''sha1:''" None ?u ?u]
  have 1: "password (snd (EditPersonForm_save ((@) ''sha1:'') None ?u ?cd1 ?u)) = ''sha1:new''"
    by simp
  from edit_person_save_password [of ?cd2 "[]" "(@) ''sha1:''" None ?u ?u]
  have 2: "password (snd (EditPersonForm_save ((@) ''sha1:'') None ?u ?cd2 ?u)) = ''sha1:old''"
    and 3: "last_name (snd (EditPersonForm_save ((@) ''sha1:'') None ?u ?cd2 ?u)) = ''Low''"
    by simp_all
  from 1 2 3 show ?thesis by simp
qed


section \<open>QuickSearchForm: dispatch on the runtime type\<close>

text \<open>
  C6. \<^verbatim>\<open>clean_quick_search\<close> dispatches on the runtime type of the item, across the three
  entity types: it returns the project-view URL for a Project, the business-view URL for
  a Business and the person-view URL for a User, instances of subclasses included, and
  raises the validation error 'Must be a User or Project' for an item that is an
  instance of none of the three. The three classes are unrelated, so an item is an
  instance of at most one of them; were it an instance of two, the first test in the
  order Project, Business, User decides.
\<close>

theorem quick_search_dispatch:
  "(isinstance x Project \<longrightarrow>
      clean_quick_search reverse x = Inr (reverse ''view_project'' [(''project_id'', item_id x)]))
   \<and> (isinstance x Business \<and> \<not> isinstance x Project \<longrightarrow>
      clean_quick_search reverse x = Inr (reverse ''view_business'' [(''business'', item_id x)]))
   \<and> (isinstance x User \<and> \<not> isinstance x Project \<and> \<not> isinstance x Business \<longrightarrow>
      clean_quick_search reverse x = Inr (reverse ''view_person'' [(''person_id'', item_id x)]))
   \<and> (\<not> isinstance x Project \<and> \<not> isinstance x Business \<and> \<not> isinstance x User \<longrightarrow>
      clean_quick_search reverse x = Inl (ValidationError ''Must be a User or Project'' []))"
  by (simp add: clean_quick_search_def)

theorem quick_search_dispatch_witness:
  "clean_quick_search (\<lambda>view kwargs. view)
       \<lparr>item_mro = [OtherClass ''SpecialProject'', Project, OtherClass ''Model''], item_id = 7\<rparr>
     = Inr ''view_project''
   \<and> clean_quick_search (\<lambda>view kwargs. view)
       \<lparr>item_mro = [Business, OtherClass ''Model''], item_id = 7\<rparr>
     = Inr ''view_business''
   \<and> clean_quick_search (\<lambda>view kwargs. view)
       \<lparr>item_mro = [User, OtherClass ''Model''], item_id = 7\<rparr>
     = Inr ''view_person''
   \<and> clean_quick_search (\<lambda>view kwargs. view)
       \<lparr>item_mro = [OtherClass ''Activity'', OtherClass ''Model''], item_id = 7\<rparr>
     = Inl (ValidationError ''Must be a User or Project'' [])"
proof -
  let ?rv = "\<lambda>view kwargs :: (string \<times> nat) list. view :: string"
  from quick_search_dispatch
    [of "\<lparr>item_mro = [OtherClass ''SpecialProject'', Project, OtherClass ''Model''], item_id = 7\<rparr>" ?rv]
  have 1: "clean_quick_search ?rv
       \<lparr>item_mro = [OtherClass ''SpecialProject'', Project, OtherClass ''Model''], item_id = 7\<rparr>
     = Inr ''view_project''"
    by (simp add: isinstance_def)
  from quick_search_dispatch [of "\<lparr>item_mro = [Business, OtherClass ''Model''], item_id = 7\<rparr>" ?rv]
  have 2: "clean_quick_search ?rv \<lparr>item_mro = [Business, OtherClass ''Model''], item_id = 7\<rparr>
     = Inr ''view_business''"
    by (simp add: isinstance_def)
  from quick_search_dispatch [of "\<lparr>item_mro = [User, OtherClass ''Model''], item_id = 7\<rparr>" ?rv]
  have 3: "clean_quick_search ?rv \<lparr>item_mro = [User, OtherClass ''Model''], item_id = 7\<rparr>
     = Inr ''view_person''"
    by (simp add: isinstance_def)
  from quick_search_dispatch
    [of "\<lparr>item_mro = [OtherClass ''Activity'', OtherClass ''Model''], item_id = 7\<rparr>" ?rv]
  have 4: "clean_quick_search ?rv
       \<lparr>item_mro = [OtherClass ''Activity'', OtherClass ''Model''], item_id = 7\<rparr>
     = Inl (ValidationError ''Must be a User or Project'' [])"
    by (simp add: isinstance_def)
  from 1 2 3 4 show ?thesis by simp
qed


section \<open>ClockInForm: the start time against the open entries\<close>

text \<open>
  C7. For a start time \<open>s\<close> submitted through ClockInForm for the user \<open>u\<close>,
  \<^verbatim>\<open>clean_start_time\<close> raises the validation error that names a conflicting entry (an
  open entry of \<open>u\<close> that starts at or after \<open>s\<close>) if and only if some entry of \<open>u\<close> has
  a null \<^verbatim>\<open>end_time\<close> and a \<^verbatim>\<open>start_time\<close> greater than or equal to \<open>s\<close>; otherwise it
  returns \<open>s\<close>.
\<close>

theorem clock_in_start_conflict_iff:
  "((\<exists>x. clean_start_time db u (Some s) = Inl (clock_in_conflict x))
      \<longleftrightarrow> (\<exists>x\<in>set db. user x = u \<and> end_time x = None \<and> s \<le> start_time x))
   \<and> ((\<exists>x\<in>set db. user x = u \<and> end_time x = None \<and> s \<le> start_time x
        \<and> clean_start_time db u (Some s) = Inl (clock_in_conflict x))
      \<longleftrightarrow> (\<exists>x\<in>set db. user x = u \<and> end_time x = None \<and> s \<le> start_time x))
   \<and> (clean_start_time db u (Some s) = Inr s
      \<longleftrightarrow> \<not> (\<exists>x\<in>set db. user x = u \<and> end_time x = None \<and> s \<le> start_time x))"
proof -
  let ?P = "\<lambda>x. s \<le> start_time x \<and> end_time x = None"
  let ?r = "clean_start_time db u (Some s)"
  have r: "?r = (case filter ?P (timepiece_entries db u) of
                   [] \<Rightarrow> Inr s
                 | x # _ \<Rightarrow> Inl (clock_in_conflict x))"
    by (simp add: clean_start_time_def)
  show ?thesis
  proof (cases "filter ?P (timepiece_entries db u)")
    case Nil
    have "\<not> ?P x" if "x \<in> set db" "user x = u" for x
      using filter_Nil_none [OF Nil, of x] that by (simp add: set_timepiece_entries)
    then have none: "\<not> (\<exists>x\<in>set db. user x = u \<and> end_time x = None \<and> s \<le> start_time x)"
      by blast
    have "?r = Inr s" using r Nil by simp
    with none show ?thesis by auto
  next
    case (Cons y ys)
    from filter_Cons_first [OF Cons]
    have y: "y \<in> set db" "user y = u" "end_time y = None" "s \<le> start_time y"
      by (auto simp: set_timepiece_entries)
    have "?r = Inl (clock_in_conflict y)" using r Cons by simp
    with y show ?thesis by auto
  qed
qed


section \<open>AddUpdateEntryForm: future entries and conflicts\<close>

text \<open>
  C8. With both times present, \<^verbatim>\<open>AddUpdateEntryForm.clean\<close> raises 'Entries may not be
  added in the future.' exactly when the start is at or after the current time or the end
  is after it, the current time being what \<^verbatim>\<open>datetime.now()\<close> returns for each of the two
  comparisons. The boundary is asymmetric: a start equal to the current time is rejected
  whatever the end is, while an end equal to the current time is rejected by this check
  only when the start is.
\<close>

theorem future_entry_iff:
  "(AddUpdateEntryForm_clean now1 now2 db u (Some s) (Some e)
       = Inl (ValidationError ''Entries may not be added in the future.'' [])
      \<longleftrightarrow> now1 \<le> s \<or> now2 < e)
   \<and> AddUpdateEntryForm_clean now1 now2 db u (Some now1) (Some e)
       = Inl (ValidationError ''Entries may not be added in the future.'' [])
   \<and> (AddUpdateEntryForm_clean now1 now2 db u (Some s) (Some now2)
       = Inl (ValidationError ''Entries may not be added in the future.'' [])
      \<longleftrightarrow> now1 \<le> s)"
  by (auto simp: AddUpdateEntryForm_clean_def add_update_conflict_not_future
           split: list.splits)

text \<open>
  C1 does not hold as stated, at two inputs. A candidate whose end (10) is before its
  start (50) is rejected with the conflict error for an open entry that starts at 30,
  after the candidate's end: the query also matches open entries that start at or before
  the candidate's start. And a candidate that starts at the current time is rejected with
  the future error, not the conflict error, although an open entry starts before its end.
\<close>

theorem add_update_conflict_counterexample:
  "AddUpdateEntryForm_clean 100 100
       [\<lparr>user = 1, project = 2, activity = 3, start_time = 30, end_time = None\<rparr>] 1
       (Some 50) (Some 10)
     = Inl (add_update_conflict
             \<lparr>user = 1, project = 2, activity = 3, start_time = 30, end_time = None\<rparr>)
   \<and> \<not> spec_conflict
         [\<lparr>user = 1, project = 2, activity = 3, start_time = 30, end_time = None\<rparr>] 1 10
   \<and> AddUpdateEntryForm_clean 100 100
       [\<lparr>user = 1, project = 2, activity = 3, start_time = 30, end_time = None\<rparr>] 1
       (Some 100) (Some 100)
     = Inl (ValidationError ''Entries may not be added in the future.'' [])
   \<and> spec_conflict
         [\<lparr>user = 1, project = 2, activity = 3, start_time = 30, end_time = None\<rparr>] 1 100"
  by (simp add: AddUpdateEntryForm_clean_def timepiece_entries_def spec_conflict_def)

text \<open>
  C1, amended. For a candidate with both times present and not in the future (start
  before the current time, end not after it), validation raises the conflict error naming
  an open entry of the same user if and only if some entry of that user has a null
  \<^verbatim>\<open>end_time\<close> and a \<^verbatim>\<open>start_time\<close> at or before the candidate's end or at or before the
  candidate's start, and otherwise returns the cleaned times. When the start is not after
  the end, the condition is the one of C1: a \<^verbatim>\<open>start_time\<close> at or before the
  candidate's end.
\<close>

theorem add_update_conflict_iff:
  assumes "s < now1" and "e \<le> now2"
  shows
   "((\<exists>x. AddUpdateEntryForm_clean now1 now2 db u (Some s) (Some e) = Inl (add_update_conflict x))
       \<longleftrightarrow> (\<exists>x\<in>set db. user x = u \<and> end_time x = None \<and> (start_time x \<le> e \<or> start_time x \<le> s)))
    \<and> ((\<exists>x\<in>set db. user x = u \<and> end_time x = None \<and> (start_time x \<le> e \<or> start_time x \<le> s)
         \<and> AddUpdateEntryForm_clean now1 now2 db u (Some s) (Some e) = Inl (add_update_conflict x))
       \<longleftrightarrow> (\<exists>x\<in>set db. user x = u \<and> end_time x = None \<and> (start_time x \<le> e \<or> start_time x \<le> s)))
    \<and> (AddUpdateEntryForm_clean now1 now2 db u (Some s) (Some e) = Inr (s, e)
       \<longleftrightarrow> \<not> (\<exists>x\<in>set db. user x = u \<and> end_time x = None \<and> (start_time x \<le> e \<or> start_time x \<le> s)))
    \<and> (s \<le> e \<longrightarrow>
         ((\<exists>x. AddUpdateEntryForm_clean now1 now2 db u (Some s) (Some e) = Inl (add_update_conflict x))
          \<longleftrightarrow> spec_conflict db u e))"
proof -
  let ?P = "\<lambda>x. (start_time x \<le> e \<and> end_time x = None) \<or> (start_time x \<le> s \<and> end_time x = None)"
  let ?r = "AddUpdateEntryForm_clean now1 now2 db u (Some s) (Some e)"
  note r = add_update_past [OF assms, of db u]
  show ?thesis
  proof (cases "filter ?P (timepiece_entries db u)")
    case Nil
    have "\<not> ?P x" if "x \<in> set db" "user x = u" for x
      using filter_Nil_none [OF Nil, of x] that by (simp add: set_timepiece_entries)
    then have none: "\<not> (\<exists>x\<in>set db. user x = u \<and> end_time x = None \<and> (start_time x \<le> e \<or> start_time x \<le> s))"
      by blast
    then have "\<not> spec_conflict db u e"
      unfolding spec_conflict_iff by blast
    moreover have "?r = Inr (s, e)" using r Nil by simp
    ultimately show ?thesis using none by auto
  next
    case (Cons y ys)
    from filter_Cons_first [OF Cons]
    have y: "y \<in> set db" "user y = u" "end_time y = None" "start_time y \<le> e \<or> start_time y \<le> s"
      by (auto simp: set_timepiece_entries)
    have res: "?r = Inl (add_update_conflict y)" using r Cons by simp
    have 1: "\<exists>x\<in>set db. user x = u \<and> end_time x = None \<and> (start_time x \<le> e \<or> start_time x \<le> s)
         \<and> ?r = Inl (add_update_conflict x)"
      using y res by blast
    have 2: "spec_conflict db u e" if "s \<le> e"
      unfolding spec_conflict_iff using y that by (intro bexI [of _ y]) auto
    from 1 2 res show ?thesis by auto
  qed
qed

theorem add_update_conflict_iff_witness:
  "(10::int) < 100 \<and> (20::int) \<le> 100
   \<and> AddUpdateEntryForm_clean 100 100
       [\<lparr>user = 1, project = 2, activity = 3, start_time = 15, end_time = None\<rparr>] 1
       (Some 10) (Some 20) \<noteq> Inr (10, 20)"
  using add_update_conflict_iff [of 10 100 20 100
      "[\<lparr>user = 1, project = 2, activity = 3, start_time = 15, end_time = None\<rparr>]" 1]
  by simp

text \<open>
  C4 does not hold as stated. ClockInForm accepts the start time 50 for a user who has two
  open entries, started at 10 and at 20: the check only looks for open entries that start
  at or after the submitted start. Both open entries overlap the range of the new entry.
\<close>

theorem validation_success_counterexample:
  "clean_start_time
       [\<lparr>user = 1, project = 2, activity = 3, start_time = 10, end_time = None\<rparr>,
        \<lparr>user = 1, project = 2, activity = 4, start_time = 20, end_time = None\<rparr>] 1 (Some 50)
     = Inr 50
   \<and> spec_overlapping_open
       [\<lparr>user = 1, project = 2, activity = 3, start_time = 10, end_time = None\<rparr>,
        \<lparr>user = 1, project = 2, activity = 4, start_time = 20, end_time = None\<rparr>] 1 50 None
     = [\<lparr>user = 1, project = 2, activity = 3, start_time = 10, end_time = None\<rparr>,
        \<lparr>user = 1, project = 2, activity = 4, start_time = 20, end_time = None\<rparr>]"
  by (simp add: clean_start_time_def timepiece_entries_def spec_overlapping_open_def
        spec_overlaps_open_def)

text \<open>
  C4, amended. Whenever \<^verbatim>\<open>AddUpdateEntryForm.clean\<close> succeeds, every open entry of the
  user starts after both the start and the end of the candidate, so no open entry
  overlaps the candidate's range. Whenever \<^verbatim>\<open>ClockInForm.clean_start_time\<close> succeeds,
  every open entry of the user starts before the submitted start time; such earlier open
  entries can exist.
\<close>

theorem validation_success_open_entries:
  "(AddUpdateEntryForm_clean now1 now2 db u start endt = Inr (s, e) \<longrightarrow>
      spec_overlapping_open db u s (Some e) = []
      \<and> (\<forall>x\<in>set db. user x = u \<and> end_time x = None \<longrightarrow>
            s < start_time x \<and> e < start_time x))
   \<and> (clean_start_time db u cstart = Inr c \<longrightarrow>
      (\<forall>x\<in>set db. user x = u \<and> end_time x = None \<longrightarrow> start_time x < c))"
proof (intro conjI impI ballI)
  let ?P = "\<lambda>x. (start_time x \<le> e \<and> end_time x = None) \<or> (start_time x \<le> s \<and> end_time x = None)"
  assume ok: "AddUpdateEntryForm_clean now1 now2 db u start endt = Inr (s, e)"
  then have none: "filter ?P (timepiece_entries db u) = []"
    by (auto simp: AddUpdateEntryForm_clean_def split: option.splits if_splits list.splits)
  have "\<not> spec_overlaps_open x s (Some e)" if "x \<in> set (timepiece_entries db u)" for x
    using filter_Nil_none [OF none that] by (auto simp: spec_overlaps_open_def)
  then show "spec_overlapping_open db u s (Some e) = []"
    by (simp add: spec_overlapping_open_def filter_empty_conv)
next
  fix x
  assume ok: "AddUpdateEntryForm_clean now1 now2 db u start endt = Inr (s, e)"
    and x: "x \<in> set db" "user x = u \<and> end_time x = None"
  let ?P = "\<lambda>x. (start_time x \<le> e \<and> end_time x = None) \<or> (start_time x \<le> s \<and> end_time x = None)"
  from ok have "filter ?P (timepiece_entries db u) = []"
    by (auto simp: AddUpdateEntryForm_clean_def split: option.splits if_splits list.splits)
  from filter_Nil_none [OF this, of x] x
  have "\<not> ?P x" by (simp add: set_timepiece_entries)
  with x show "s < start_time x" "e < start_time x"
    by auto
next
  fix x
  assume ok: "clean_start_time db u cstart = Inr c"
    and x: "x \<in> set db" "user x = u \<and> end_time x = None"
  let ?P = "\<lambda>x. c \<le> start_time x \<and> end_time x = None"
  from ok have "filter ?P (timepiece_entries db u) = []"
    by (auto simp: clean_start_time_def split: option.splits list.splits)
  from filter_Nil_none [OF this, of x] x
  have "\<not> ?P x" by (simp add: set_timepiece_entries)
  with x show "start_time x < c" by auto
qed

theorem validation_success_witness:
  "AddUpdateEntryForm_clean 100 100
       [\<lparr>user = 1, project = 2, activity = 3, start_time = 30, end_time = None\<rparr>] 1
       (Some 10) (Some 20) = Inr (10, 20)
   \<and> spec_overlapping_open
       [\<lparr>user = 1, project = 2, activity = 3, start_time = 30, end_time = None\<rparr>] 1 10 (Some 20)
     = []
   \<and> clean_start_time
       [\<lparr>user = 1, project = 2, activity = 3, start_time = 30, end_time = None\<rparr>] 1 (Some 40)
     = Inr 40"
proof -
  let ?db = "[\<lparr>user = 1, project = 2, activity = 3, start_time = 30, end_time = None\<rparr>]"
  have a: "AddUpdateEntryForm_clean 100 100 ?db 1 (Some 10) (Some 20) = Inr (10, 20)"
    by (simp add: AddUpdateEntryForm_clean_def timepiece_entries_def)
  have b: "clean_start_time ?db 1 (Some 40) = Inr 40"
    by (simp add: clean_start_time_def timepiece_entries_def)
  from validation_success_open_entries [of 100 100 ?db 1 "Some 10" "Some 20" 10 20 "Some 40" 40] a b
  show ?thesis by simp
qed


section \<open>RepeatPeriodForm: billing windows\<close>







text \<open>
  C3 does not hold as stated. For a period of 7 days whose latest window runs from day 0
  to day 7, saving with the new start date 20 creates the window from day 7 to day 27: its
  end is the new start date plus the delta, not the end of the latest window plus the
  delta, which is day 14.
\<close>

theorem appended_window_counterexample:
  "RepeatPeriodForm_save days_models
       \<lparr>period_id = Some 1, active = True, count = Some 7, interval = ''day''\<rparr>
       \<lparr>cd_active = True, cd_count = Some 7, cd_interval = ''day'', cd_date = Some 20\<rparr>
       [\<lparr>date = 0, end_date = 7\<rparr>]
     = Inr \<lparr>period = \<lparr>period_id = Some 1, active = True, count = Some 7, interval = ''day''\<rparr>,
            period_row = Some \<lparr>period_id = Some 1, active = True, count = Some 7, interval = ''day''\<rparr>,
            windows = [\<lparr>date = 0, end_date = 7\<rparr>, \<lparr>date = 7, end_date = 27\<rparr>]\<rparr>
   \<and> latest days_models [\<lparr>date = 0, end_date = 7\<rparr>] = Some \<lparr>date = 0, end_date = 7\<rparr>
   \<and> plus_delta days_models
        \<lparr>period_id = Some 1, active = True, count = Some 7, interval = ''day''\<rparr> 7 = 14"
  by (simp add: RepeatPeriodForm_save_def save_branches_def construct_period_def
        update_billing_windows_def due_windows_def days_models_def Let_def)

text \<open>
  C3, amended. No operation of RepeatPeriodForm mutates a billing window once it has been
  created: after \<^verbatim>\<open>save\<close> the windows from before are all there, unchanged and in their
  order, followed by the new ones; the other operations write nothing. The new windows are
  at most one that \<^verbatim>\<open>save\<close> creates itself, then those that its call of
  \<^verbatim>\<open>update_billing_windows\<close> creates. For every window created after the first: the one
  \<^verbatim>\<open>save\<close> creates itself starts at the end date of the prior (latest) window and ends at
  the newly supplied start date, which is after that end date, plus the delta of the
  period; each one created by \<^verbatim>\<open>update_billing_windows\<close> ends at the end date of the
  prior window plus the delta.
\<close>

theorem appended_window_shape:
  assumes "RepeatPeriodForm_save M inst cd ws = Inr out"
  shows "\<exists>direct rolled. windows out = ws @ direct @ rolled
     \<and> (direct = []
        \<or> (\<not> truthy_id (period_id inst)
            \<and> (\<exists>d. cd_date cd = Some d
                 \<and> direct = [\<lparr>date = d, end_date = plus_delta M (period out) d\<rparr>]))
        \<or> (truthy_id (period_id inst)
            \<and> (\<exists>l s. latest M ws = Some l \<and> cd_date cd = Some s \<and> end_date l < s
                 \<and> direct = [\<lparr>date = end_date l, end_date = plus_delta M (period out) s\<rparr>])))
     \<and> (rolled = []
        \<or> (\<exists>l. latest M (ws @ direct) = Some l \<and> rolls_from M (period out) l rolled))"
proof -
  from assms obtain b where b: "save_branches M inst cd ws = Inr b"
    and out: "out = b\<lparr>windows := update_billing_windows M (period b) (windows b)\<rparr>"
    by (auto simp: RepeatPeriodForm_save_def split: sum.splits)
  have "\<exists>direct. windows b = ws @ direct
     \<and> (direct = []
        \<or> (\<not> truthy_id (period_id inst)
            \<and> (\<exists>d. cd_date cd = Some d
                 \<and> direct = [\<lparr>date = d, end_date = plus_delta M (period b) d\<rparr>]))
        \<or> (truthy_id (period_id inst)
            \<and> (\<exists>l s. latest M ws = Some l \<and> cd_date cd = Some s \<and> end_date l < s
                 \<and> direct = [\<lparr>date = end_date l, end_date = plus_delta M (period b) s\<rparr>])))"
    using b
    by (auto simp: save_branches_def Let_def split: if_splits option.splits)
  then obtain direct where direct: "windows b = ws @ direct"
    and shape: "direct = []
        \<or> (\<not> truthy_id (period_id inst)
            \<and> (\<exists>d. cd_date cd = Some d
                 \<and> direct = [\<lparr>date = d, end_date = plus_delta M (period b) d\<rparr>]))
        \<or> (truthy_id (period_id inst)
            \<and> (\<exists>l s. latest M ws = Some l \<and> cd_date cd = Some s \<and> end_date l < s
                 \<and> direct = [\<lparr>date = end_date l, end_date = plus_delta M (period b) s\<rparr>]))"
    by blast
  define rolled where "rolled = due_windows M (period b) (ws @ direct)"
  have p: "period out = period b"
    and w: "windows out = ws @ direct @ rolled"
    using out direct by (simp_all add: update_billing_windows_def rolled_def)
  have chain: "rolled = []
        \<or> (\<exists>l. latest M (ws @ direct) = Some l \<and> rolls_from M (period b) l rolled)"
  proof (cases "latest M (ws @ direct)")
    case None
    then show ?thesis by (simp add: rolled_def due_windows_def)
  next
    case (Some l)
    then have "rolls_from M (period b) l rolled"
      by (simp add: rolled_def due_windows_def rolls_from_rollover)
    with Some show ?thesis by blast
  qed
  show ?thesis
    unfolding p w using shape chain by (intro exI [of _ direct] exI [of _ rolled] conjI refl)
qed

theorem appended_window_shape_witness:
  "RepeatPeriodForm_save rolling_models
       \<lparr>period_id = Some 1, active = True, count = Some 7, interval = ''day''\<rparr>
       \<lparr>cd_active = True, cd_count = Some 7, cd_interval = ''day'', cd_date = Some 12\<rparr>
       [\<lparr>date = 3, end_date = 10\<rparr>]
     = Inr \<lparr>period = \<lparr>period_id = Some 1, active = True, count = Some 7, interval = ''day''\<rparr>,
            period_row = Some \<lparr>period_id = Some 1, active = True, count = Some 7, interval = ''day''\<rparr>,
            windows = [\<lparr>date = 3, end_date = 10\<rparr>, \<lparr>date = 10, end_date = 19\<rparr>,
                       \<lparr>date = 19, end_date = 26\<rparr>, \<lparr>date = 26, end_date = 33\<rparr>]\<rparr>
   \<and> (\<exists>direct rolled.
         [\<lparr>date = 3, end_date = 10\<rparr>, \<lparr>date = 10, end_date = 19\<rparr>,
          \<lparr>date = 19, end_date = 26\<rparr>, \<lparr>date = 26, end_date = 33\<rparr>]
           = [\<lparr>date = 3, end_date = 10\<rparr>] @ direct @ rolled
         \<and> (rolled = []
            \<or> (\<exists>l. latest rolling_models ([\<lparr>date = 3, end_date = 10\<rparr>] @ direct) = Some l
                 \<and> rolls_from rolling_models
                      \<lparr>period_id = Some 1, active = True, count = Some 7, interval = ''day''\<rparr>
                      l rolled)))"
proof -
  let ?old = "\<lparr>period_id = Some 1, active = True, count = Some 7, interval = ''day''\<rparr>"
  let ?w = "\<lparr>date = 3, end_date = 10\<rparr>"
  let ?cd = "\<lparr>cd_active = True, cd_count = Some 7, cd_interval = ''day'', cd_date = Some 12\<rparr>"
  let ?out = "\<lparr>period = ?old, period_row = Some ?old,
                 windows = [?w, \<lparr>date = 10, end_date = 19\<rparr>, \<lparr>date = 19, end_date = 26\<rparr>,
                            \<lparr>date = 26, end_date = 33\<rparr>]\<rparr>"
  have s: "RepeatPeriodForm_save rolling_models ?old ?cd [?w] = Inr ?out"
    by (simp add: RepeatPeriodForm_save_def save_branches_def construct_period_def
          update_billing_windows_def due_windows_def rolling_models_def days_models_def
          Let_def numeral_2_eq_2)
  from appended_window_shape [OF s]
  obtain direct rolled where
    "windows ?out = [?w] @ direct @ rolled"
    "rolled = [] \<or> (\<exists>l. latest rolling_models ([?w] @ direct) = Some l
        \<and> rolls_from rolling_models (period ?out) l rolled)"
    by blast
  then have "\<exists>direct rolled.
      [?w, \<lparr>date = 10, end_date = 19\<rparr>, \<lparr>date = 19, end_date = 26\<rparr>, \<lparr>date = 26, end_date = 33\<rparr>]
        = [?w] @ direct @ rolled
      \<and> (rolled = [] \<or> (\<exists>l. latest rolling_models ([?w] @ direct) = Some l
            \<and> rolls_from rolling_models ?old l rolled))"
    by (intro exI [of _ direct] exI [of _ rolled]) simp
  with s show ?thesis by (intro conjI)
qed

end
